theory Spec2Isabelle
  imports Main
begin

section \<open>JavaScript values and objects\<close>

text \<open>
  The module \<^verbatim>\<open>relation-fixer/getmissingdocletsdata.js\<close> works on doclets, which are
  JavaScript objects whose properties are read and written by name, some of them by a
  computed name (\<^verbatim>\<open>doclet[ key ]\<close>, \<^verbatim>\<open>clonedDoclet[ relationProperty ] = true\<close>).
  A doclet is therefore modelled by the list of its own properties, in insertion order.

  The values a property can hold are the ones the fields of a doclet take in this module:
  \<^verbatim>\<open>undefined\<close>, \<^verbatim>\<open>null\<close>, booleans, strings, and arrays of strings (the relation
  arrays and \<^verbatim>\<open>descendants\<close>). A string is a list of characters; each character stands
  for one code unit, which is all that \<^verbatim>\<open>lastIndexOf\<close> and \<^verbatim>\<open>slice\<close> look at.

  Doclets and the doclet map are plain objects: what they do not hold themselves they
  inherit from \<^verbatim>\<open>Object.prototype\<close>. The module reads a property under a computed name
  in three places (\<^verbatim>\<open>childDoclet[ options.relation ]\<close>, \<^verbatim>\<open>doclet[ key ]\<close> in the
  filter loop, and \<^verbatim>\<open>docletMap[ ... ]\<close>), and there an inherited member can be found:
  the first two go through \<open>readProp\<close>, the third through the initial doclet map
  \<open>emptyObject\<close>, both below.
  Arrays carry no identity; \<^verbatim>\<open>===\<close> on two arrays is modelled as false, which is what
  it yields for two distinct array objects (in particular for a field of a deep clone
  against a field of a stored doclet).
\<close>

datatype jsval =
    JUndefined
  | JNull
  | JBool bool
  | JStr string
  | JArr "string list"

type_synonym jsobj = "(string \<times> jsval) list"

datatype error = TypeError

text \<open>
  Reading a property under a name written in the source (\<^verbatim>\<open>doclet.kind\<close>,
  \<^verbatim>\<open>doclet.longname\<close>, ...), or under a key that \<^verbatim>\<open>Object.keys\<close> returned for the same
  object. None of the names written in the source is a member of \<^verbatim>\<open>Object.prototype\<close>,
  so the value is the own property, or \<^verbatim>\<open>undefined\<close> when there is none.
\<close>

definition getProp :: "jsobj \<Rightarrow> string \<Rightarrow> jsval" where
  "getProp obj key = (case map_of obj key of None \<Rightarrow> JUndefined | Some v \<Rightarrow> v)"

text \<open>
  The names that every plain object inherits from \<^verbatim>\<open>Object.prototype\<close>. Each of them
  reads as a function, except \<^verbatim>\<open>__proto__\<close>, which reads as \<^verbatim>\<open>Object.prototype\<close> itself.
\<close>

definition objectPrototypeKeys :: "string list" where
  "objectPrototypeKeys =
     [''constructor'', ''__defineGetter__'', ''__defineSetter__'', ''hasOwnProperty'',
      ''__lookupGetter__'', ''__lookupSetter__'', ''isPrototypeOf'',
      ''propertyIsEnumerable'', ''toString'', ''valueOf'', ''__proto__'',
      ''toLocaleString'']"

text \<open>
  Reading a property under a computed name, \<^verbatim>\<open>obj[ key ]\<close>: the own property if there
  is one, else the inherited member if the name is one of \<^verbatim>\<open>Object.prototype\<close>, else
  \<^verbatim>\<open>undefined\<close>. An inherited member is a function or an object; it is not one of the
  values of \<open>jsval\<close>, so the result has a type of its own.
\<close>

datatype jsread = Value jsval | Inherited string

definition readProp :: "jsobj \<Rightarrow> string \<Rightarrow> jsread" where
  "readProp obj key =
     (case map_of obj key of
        Some v \<Rightarrow> Value v
      | None \<Rightarrow> if key \<in> set objectPrototypeKeys then Inherited key else Value JUndefined)"

text \<open>
  Writing a property, \<^verbatim>\<open>obj[ key ] = v\<close>: an existing property keeps its place, a new
  one goes last.
\<close>

fun setProp :: "jsobj \<Rightarrow> string \<Rightarrow> jsval \<Rightarrow> jsobj" where
  "setProp [] key v = [(key, v)]"
| "setProp ((k, w) # ps) key v =
     (if k = key then (key, v) # ps else (k, w) # setProp ps key v)"

text \<open>Truthiness, as tested by \<^verbatim>\<open>if\<close>, \<^verbatim>\<open>||\<close>, \<^verbatim>\<open>&&\<close> and \<^verbatim>\<open>!\<close>.\<close>

fun truthy :: "jsval \<Rightarrow> bool" where
  "truthy JUndefined = False"
| "truthy JNull = False"
| "truthy (JBool b) = b"
| "truthy (JStr s) = (s \<noteq> [])"
| "truthy (JArr xs) = True"

text \<open>Strict equality \<^verbatim>\<open>===\<close>; \<^verbatim>\<open>!==\<close> is its negation.\<close>

fun strictEq :: "jsval \<Rightarrow> jsval \<Rightarrow> bool" where
  "strictEq JUndefined JUndefined = True"
| "strictEq JNull JNull = True"
| "strictEq (JBool a) (JBool b) = (a = b)"
| "strictEq (JStr s) (JStr t) = (s = t)"
| "strictEq _ _ = False"

text \<open>
  \<^verbatim>\<open>===\<close> between the result of a computed read and a value: an inherited function or
  object is not \<^verbatim>\<open>===\<close> to any value of \<open>jsval\<close>.
\<close>

fun strictEqRead :: "jsread \<Rightarrow> jsval \<Rightarrow> bool" where
  "strictEqRead (Value v) w = strictEq v w"
| "strictEqRead (Inherited k) w = False"

text \<open>\<^verbatim>\<open>Array.prototype.join( ',' )\<close> on an array of strings.\<close>

fun joinComma :: "string list \<Rightarrow> string" where
  "joinComma [] = []"
| "joinComma [x] = x"
| "joinComma (x # y # ys) = x @ '','' @ joinComma (y # ys)"

text \<open>
  The conversion to a string that a template literal, a computed property name and
  \<^verbatim>\<open>+\<close> with a string operand apply.
\<close>

fun toStr :: "jsval \<Rightarrow> string" where
  "toStr JUndefined = ''undefined''"
| "toStr JNull = ''null''"
| "toStr (JBool b) = (if b then ''true'' else ''false'')"
| "toStr (JStr s) = s"
| "toStr (JArr xs) = joinComma xs"

text \<open>
  \<^verbatim>\<open>lastIndexOf( x )\<close> of a string (with a one-character argument) and of an array:
  the greatest index holding \<open>x\<close>, or \<open>-1\<close>.
\<close>

fun lastIndexOf :: "'a list \<Rightarrow> 'a \<Rightarrow> int" where
  "lastIndexOf [] x = -1"
| "lastIndexOf (y # ys) x =
     (let r = lastIndexOf ys x
      in if r \<noteq> -1 then r + 1 else if y = x then 0 else -1)"

text \<open>
  \<^verbatim>\<open>slice( start )\<close> of a string and of an array: a negative \<open>start\<close> counts from the
  end, and the result runs to the end.
\<close>

definition slice :: "'a list \<Rightarrow> int \<Rightarrow> 'a list" where
  "slice xs start =
     (let len = int (length xs);
          from = (if start < 0 then max (len + start) 0 else min start len)
      in drop (nat from) xs)"

text \<open>\<^verbatim>\<open>cloneDeep\<close> of lodash: a copy with the same properties and values.\<close>

definition cloneDeep :: "jsobj \<Rightarrow> jsobj" where
  "cloneDeep obj = obj"

section \<open>The doclet collection and the options\<close>

text \<open>
  The class \<^verbatim>\<open>DocletCollection\<close> is not part of the module. The module calls two of its
  methods, \<^verbatim>\<open>get( category )\<close> and \<^verbatim>\<open>getAll()\<close>, each returning an array of doclets; the
  collection is the pair of them, with nothing assumed about how they relate.
\<close>

record docletCollection =
  get :: "string \<Rightarrow> jsobj list"
  getAll :: "jsobj list"

text \<open>
  The \<^verbatim>\<open>Options\<close> typedef: \<^verbatim>\<open>relation\<close> is a string, \<^verbatim>\<open>filter\<close> an optional object,
  \<^verbatim>\<open>onlyImplicitlyInherited\<close> an optional boolean.
\<close>

record options =
  relation :: string
  filter_opt :: "jsobj option"
  onlyImplicitlyInherited :: "bool option"

record missingDocletsData =
  newDoclets :: "jsobj list"
  docletsWhichShouldBeIgnored :: "jsobj list"

section \<open>The functions of the module\<close>

subsection \<open>\<^verbatim>\<open>getDocletsToAdd\<close>\<close>

text \<open>\<^verbatim>\<open>typeof v == 'string'\<close>.\<close>

fun isString :: "jsval \<Rightarrow> bool" where
  "isString (JStr s) = True"
| "isString _ = False"

text \<open>
  The keys of the loop are those of \<^verbatim>\<open>Object.keys( options.filter || {} )\<close>, the own
  properties of the filter; \<^verbatim>\<open>doclet[ key ]\<close> is a computed read of the doclet.
\<close>

definition shouldDocletBeAdded :: "options \<Rightarrow> jsobj \<Rightarrow> bool" where
  "shouldDocletBeAdded opts doclet =
     (if truthy (getProp doclet ''ignore'') \<or>
         truthy (getProp doclet ''undocumented'') \<or>
         isString (getProp doclet ''inheritdoc'')
      then False
      else (let flt = (case filter_opt opts of None \<Rightarrow> [] | Some f \<Rightarrow> f)
            in list_all (\<lambda>key. strictEqRead (readProp doclet key) (getProp flt key))
                 (map fst flt)))"

text \<open>
  \<^verbatim>\<open>childDoclet[ options.relation ] || []\<close> followed by \<^verbatim>\<open>ancestors.reduce( ... )\<close>:
  a falsy value gives no ancestors, an array is folded from the left, and any other
  truthy value has no \<^verbatim>\<open>reduce\<close> method, so the call raises. The read is a computed
  one: when the relation names a member of \<^verbatim>\<open>Object.prototype\<close> and the doclet has no
  such property of its own, the value is the inherited function or object, which is
  truthy and has no \<^verbatim>\<open>reduce\<close> either.
\<close>

definition getDocletsToAdd ::
  "docletCollection \<Rightarrow> jsobj \<Rightarrow> options \<Rightarrow> error + jsobj list" where
  "getDocletsToAdd docletCollection childDoclet opts =
     (case readProp childDoclet (relation opts) of
        Inherited k \<Rightarrow> Inl TypeError
      | Value v \<Rightarrow>
          if \<not> truthy v then Inr []
          else (case v of
                  JArr ancestors \<Rightarrow>
                    Inr (foldl (\<lambda>docletsToAdd longname.
                           docletsToAdd @
                           filter (shouldDocletBeAdded opts)
                             (get docletCollection (''memberof:'' @ longname)))
                         [] ancestors)
                | _ \<Rightarrow> Inl TypeError))"

subsection \<open>\<^verbatim>\<open>isNonEmptyArray\<close>\<close>

fun isNonEmptyArray :: "jsval \<Rightarrow> bool" where
  "isNonEmptyArray (JArr xs) = (xs \<noteq> [])"
| "isNonEmptyArray _ = False"

subsection \<open>\<^verbatim>\<open>getLongnameForNewDoclet\<close>\<close>

text \<open>
  \<^verbatim>\<open>parentDoclet.longname.lastIndexOf\<close> raises when the longname is \<^verbatim>\<open>undefined\<close>,
  \<^verbatim>\<open>null\<close> or a boolean. Strings and arrays both have \<^verbatim>\<open>lastIndexOf\<close> and \<^verbatim>\<open>slice\<close>.
  The final \<^verbatim>\<open>+\<close> has a string (or an array, converted to one) on its right, so it
  concatenates the string forms of both operands.
\<close>

definition getLongnameForNewDoclet :: "jsobj \<Rightarrow> jsobj \<Rightarrow> error + string" where
  "getLongnameForNewDoclet parentDoclet childDoclet =
     (case getProp parentDoclet ''longname'' of
        JStr s \<Rightarrow>
          (let dotIndex = lastIndexOf s (CHR ''.'');
               hashIndex = lastIndexOf s (CHR ''#'');
               name = slice s (max dotIndex hashIndex)
           in Inr (toStr (getProp childDoclet ''longname'') @ name))
      | JArr xs \<Rightarrow>
          (let dotIndex = lastIndexOf xs ''.'';
               hashIndex = lastIndexOf xs ''#'';
               name = slice xs (max dotIndex hashIndex)
           in Inr (toStr (getProp childDoclet ''longname'') @ joinComma name))
      | _ \<Rightarrow> Inl TypeError)"

subsection \<open>\<^verbatim>\<open>createDocletMap\<close>\<close>

text \<open>
  The map from longname to doclet is a plain object, read only as \<^verbatim>\<open>docletMap[ key ]\<close>
  with the string form of a longname as key. It is modelled by what that read yields:
  \<open>None\<close> for \<^verbatim>\<open>undefined\<close>, \<open>Some\<close> of the object found otherwise.

  The map starts as \<^verbatim>\<open>{}\<close>, which already yields the inherited member for each name of
  \<^verbatim>\<open>Object.prototype\<close>. Of an object found in the map the module reads \<^verbatim>\<open>descendants\<close>
  and \<^verbatim>\<open>kind\<close> and nothing else; an inherited member has neither, so it is represented
  by an object without properties.

  Every object the map yields is truthy, so \<^verbatim>\<open>!docletMap[ doclet.longname ]\<close> holds
  exactly when the read yields \<^verbatim>\<open>undefined\<close>. For a name of \<^verbatim>\<open>Object.prototype\<close> it
  never holds: a doclet with such a longname is not stored, and the inherited member
  stays in its place.
\<close>

type_synonym docletMap = "string \<rightharpoonup> jsobj"

definition inheritedMember :: jsobj where
  "inheritedMember = []"

definition emptyObject :: docletMap where
  "emptyObject key =
     (if key \<in> set objectPrototypeKeys then Some inheritedMember else None)"

fun createDocletMap_loop :: "jsobj list \<Rightarrow> docletMap \<Rightarrow> docletMap" where
  "createDocletMap_loop [] docletMap = docletMap"
| "createDocletMap_loop (doclet # rest) docletMap =
     (let key = toStr (getProp doclet ''longname'')
      in createDocletMap_loop rest
           (if docletMap key = None then docletMap(key \<mapsto> doclet) else docletMap))"

definition createDocletMap :: "docletCollection \<Rightarrow> docletMap" where
  "createDocletMap doclets = createDocletMap_loop (getAll doclets) emptyObject"

subsection \<open>\<^verbatim>\<open>getRelationProperty\<close>\<close>

text \<open>
  \<^verbatim>\<open>doclet.descendants.indexOf( childDoclet.longname ) !== -1\<close>, evaluated only after
  \<^verbatim>\<open>isNonEmptyArray( doclet.descendants )\<close>: \<^verbatim>\<open>indexOf\<close> compares with \<^verbatim>\<open>===\<close>, and the
  elements are strings.
\<close>

fun descendantsInclude :: "jsval \<Rightarrow> jsval \<Rightarrow> bool" where
  "descendantsInclude (JArr xs) (JStr s) = (s \<in> set xs)"
| "descendantsInclude _ _ = False"

text \<open>
  The \<^verbatim>\<open>for\<close> loop over \<^verbatim>\<open>memberDocletParent.descendants\<close>; the state is the pair
  \<^verbatim>\<open>( isInherited, isMixed )\<close>.
\<close>

fun scanDescendants ::
  "docletMap \<Rightarrow> jsobj \<Rightarrow> string list \<Rightarrow> bool \<times> bool \<Rightarrow> bool \<times> bool" where
  "scanDescendants docletMap childDoclet [] st = st"
| "scanDescendants docletMap childDoclet (longname # rest) (isInherited, isMixed) =
     scanDescendants docletMap childDoclet rest
       (case docletMap longname of
          None \<Rightarrow> (isInherited, isMixed)
        | Some doclet \<Rightarrow>
            if strictEq (getProp doclet ''kind'') (JStr ''mixin'') then
              (if isNonEmptyArray (getProp doclet ''descendants'') \<and>
                  descendantsInclude (getProp doclet ''descendants'')
                    (getProp childDoclet ''longname'')
               then (isInherited, True) else (isInherited, isMixed))
            else if strictEq (getProp doclet ''kind'') (JStr ''class'') then
              (if isNonEmptyArray (getProp doclet ''descendants'') \<and>
                  descendantsInclude (getProp doclet ''descendants'')
                    (getProp childDoclet ''longname'')
               then (True, isMixed) else (isInherited, isMixed))
            else (isInherited, isMixed))"

text \<open>
  The result is \<^verbatim>\<open>'inherited'\<close>, \<^verbatim>\<open>'mixed'\<close> or \<^verbatim>\<open>null\<close>. Reading
  \<^verbatim>\<open>memberDocletParent.descendants\<close> raises when the lookup of the member's
  \<^verbatim>\<open>memberof\<close> found nothing.
\<close>

definition getRelationProperty ::
  "docletMap \<Rightarrow> jsobj \<Rightarrow> jsobj \<Rightarrow> string \<Rightarrow> error + jsval" where
  "getRelationProperty docletMap childDoclet memberDoclet rel =
     (if rel = ''augmentsNested'' then Inr (JStr ''inherited'')
      else if rel = ''mixesNested'' then Inr (JStr ''mixed'')
      else (case docletMap (toStr (getProp memberDoclet ''memberof'')) of
              None \<Rightarrow> Inl TypeError
            | Some memberDocletParent \<Rightarrow>
                (let (isInherited, isMixed) =
                       (if isNonEmptyArray (getProp memberDocletParent ''descendants'')
                        then (case getProp memberDocletParent ''descendants'' of
                                JArr ds \<Rightarrow>
                                  scanDescendants docletMap childDoclet ds (False, False)
                              | _ \<Rightarrow> (False, False))
                        else (False, False))
                 in if isMixed then Inr (JStr ''mixed'')
                    else if isInherited then Inr (JStr ''inherited'')
                    else Inr JNull)))"

subsection \<open>\<^verbatim>\<open>doAllParentsExplicitlyInherit\<close>\<close>

fun doAllParentsExplicitlyInherit :: "jsobj list \<Rightarrow> bool" where
  "doAllParentsExplicitlyInherit [] = True"
| "doAllParentsExplicitlyInherit (doclet # rest) =
     (if strictEq (getProp doclet ''inheritdoc'') JUndefined \<and>
         strictEq (getProp doclet ''overrides'') JUndefined
      then False
      else doAllParentsExplicitlyInherit rest)"

subsection \<open>\<^verbatim>\<open>getMissingDocletsData\<close>\<close>

text \<open>
  The first part of the loop body (the clone, its \<^verbatim>\<open>longname\<close> and \<^verbatim>\<open>memberof\<close>, the
  relation property and its assignment under \<^verbatim>\<open>if ( relationProperty )\<close>). It yields
  the clone together with the relation property, which the rest of the body uses again.
\<close>

definition makeClonedDoclet ::
  "docletMap \<Rightarrow> jsobj \<Rightarrow> options \<Rightarrow> jsobj \<Rightarrow> error + (jsobj \<times> jsval)" where
  "makeClonedDoclet docletMap interfaceClassOrMixinDoclet opts docletToAdd =
     (let clonedDoclet = cloneDeep docletToAdd
      in case getLongnameForNewDoclet docletToAdd interfaceClassOrMixinDoclet of
           Inl e \<Rightarrow> Inl e
         | Inr longname \<Rightarrow>
             (let clonedDoclet = setProp clonedDoclet ''longname'' (JStr longname);
                  clonedDoclet = setProp clonedDoclet ''memberof''
                                   (getProp interfaceClassOrMixinDoclet ''longname'')
              in case getRelationProperty docletMap interfaceClassOrMixinDoclet
                        docletToAdd (relation opts) of
                   Inl e \<Rightarrow> Inl e
                 | Inr relationProperty \<Rightarrow>
                     Inr (if truthy relationProperty
                          then setProp clonedDoclet (toStr relationProperty) (JBool True)
                          else clonedDoclet,
                          relationProperty)))"

text \<open>
  The doclets already stored under the clone's \<^verbatim>\<open>memberof\<close> that have the clone's
  \<^verbatim>\<open>name\<close> and \<^verbatim>\<open>kind\<close>.
\<close>

definition docletsOfSameMember :: "docletCollection \<Rightarrow> jsobj \<Rightarrow> jsobj list" where
  "docletsOfSameMember docletCollection clonedDoclet =
     filter (\<lambda>d. strictEq (getProp d ''name'') (getProp clonedDoclet ''name'') \<and>
                 strictEq (getProp d ''kind'') (getProp clonedDoclet ''kind''))
       (get docletCollection (''memberof:'' @ toStr (getProp clonedDoclet ''memberof'')))"

text \<open>
  The second part of the loop body: the three branches that push onto the two result
  arrays. \<^verbatim>\<open>docletsOfSameMember[ 0 ]\<close> is read only when the array has two elements or
  more.
\<close>

definition pushDoclets ::
  "options \<Rightarrow> jsobj \<Rightarrow> jsval \<Rightarrow> jsobj list \<Rightarrow> missingDocletsData \<Rightarrow> missingDocletsData" where
  "pushDoclets opts clonedDoclet relationProperty sameMember acc =
     (if length sameMember = 0 then
        acc\<lparr>newDoclets := newDoclets acc @ [clonedDoclet]\<rparr>
      else if doAllParentsExplicitlyInherit sameMember \<and>
              \<not> (onlyImplicitlyInherited opts = Some True) then
        acc\<lparr>docletsWhichShouldBeIgnored := docletsWhichShouldBeIgnored acc @ sameMember,
            newDoclets := newDoclets acc @ [clonedDoclet]\<rparr>
      else if length sameMember \<ge> 2 then
        (let correctDoclet = cloneDeep (hd sameMember);
             correctDoclet = setProp correctDoclet (toStr relationProperty) (JBool True)
         in acc\<lparr>docletsWhichShouldBeIgnored :=
                   docletsWhichShouldBeIgnored acc @ sameMember,
                 newDoclets := newDoclets acc @ [correctDoclet]\<rparr>)
      else acc)"

text \<open>One iteration of the loop, from the state of the two arrays to their next state.\<close>

definition processDocletToAdd ::
  "docletCollection \<Rightarrow> docletMap \<Rightarrow> jsobj \<Rightarrow> options \<Rightarrow> jsobj \<Rightarrow>
   missingDocletsData \<Rightarrow> error + missingDocletsData" where
  "processDocletToAdd docletCollection docletMap interfaceClassOrMixinDoclet opts
     docletToAdd acc =
     (case makeClonedDoclet docletMap interfaceClassOrMixinDoclet opts docletToAdd of
        Inl e \<Rightarrow> Inl e
      | Inr (clonedDoclet, relationProperty) \<Rightarrow>
          Inr (pushDoclets opts clonedDoclet relationProperty
                 (docletsOfSameMember docletCollection clonedDoclet) acc))"

text \<open>The loop over \<^verbatim>\<open>docletsToAdd\<close>; an exception in an iteration ends the call.\<close>

fun processDocletsToAdd ::
  "docletCollection \<Rightarrow> docletMap \<Rightarrow> jsobj \<Rightarrow> options \<Rightarrow> jsobj list \<Rightarrow>
   missingDocletsData \<Rightarrow> error + missingDocletsData" where
  "processDocletsToAdd docletCollection docletMap interfaceClassOrMixinDoclet opts [] acc =
     Inr acc"
| "processDocletsToAdd docletCollection docletMap interfaceClassOrMixinDoclet opts
     (docletToAdd # rest) acc =
     (case processDocletToAdd docletCollection docletMap interfaceClassOrMixinDoclet opts
             docletToAdd acc of
        Inl e \<Rightarrow> Inl e
      | Inr acc' \<Rightarrow>
          processDocletsToAdd docletCollection docletMap interfaceClassOrMixinDoclet opts
            rest acc')"

definition getMissingDocletsData ::
  "docletCollection \<Rightarrow> jsobj \<Rightarrow> options \<Rightarrow> error + missingDocletsData" where
  "getMissingDocletsData docletCollection interfaceClassOrMixinDoclet opts =
     (case getDocletsToAdd docletCollection interfaceClassOrMixinDoclet opts of
        Inl e \<Rightarrow> Inl e
      | Inr docletsToAdd \<Rightarrow>
          processDocletsToAdd docletCollection (createDocletMap docletCollection)
            interfaceClassOrMixinDoclet opts docletsToAdd
            \<lparr>newDoclets = [], docletsWhichShouldBeIgnored = []\<rparr>)"

section \<open>The descendant conditions in the words of the specification\<close>

text \<open>
  The specification describes the tag of the implements relation by two conditions on
  the parent of the candidate member: some entry of the parent's \<^verbatim>\<open>descendants\<close> is a
  doclet of a given kind (\<^verbatim>\<open>mixin\<close> or \<^verbatim>\<open>class\<close>) whose own \<^verbatim>\<open>descendants\<close> include
  the longname of the target entity. These two definitions follow that wording; the
  lookup of a longname is the map built by \<open>createDocletMap\<close>.
\<close>

definition spec_relatedDescendant ::
  "docletMap \<Rightarrow> jsobj \<Rightarrow> string \<Rightarrow> string \<Rightarrow> bool" where
  "spec_relatedDescendant docletMap target kind longname =
     (case docletMap longname of
        None \<Rightarrow> False
      | Some doclet \<Rightarrow>
          getProp doclet ''kind'' = JStr kind \<and>
          (case (getProp doclet ''descendants'', getProp target ''longname'') of
             (JArr ds, JStr t) \<Rightarrow> t \<in> set ds
           | _ \<Rightarrow> False))"

definition spec_descendantOfKind ::
  "docletMap \<Rightarrow> jsobj \<Rightarrow> jsobj \<Rightarrow> string \<Rightarrow> bool" where
  "spec_descendantOfKind docletMap parent target kind =
     (case getProp parent ''descendants'' of
        JArr ds \<Rightarrow> list_ex (spec_relatedDescendant docletMap target kind) ds
      | _ \<Rightarrow> False)"

section \<open>Example inputs\<close>

text \<open>Options with a relation only: no filter, \<^verbatim>\<open>onlyImplicitlyInherited\<close> absent.\<close>

definition optionsFor :: "string \<Rightarrow> options" where
  "optionsFor rel = \<lparr>relation = rel, filter_opt = None, onlyImplicitlyInherited = None\<rparr>"

subsection \<open>A class extending a class\<close>

text \<open>
  The scenario of the specification: \<^verbatim>\<open>Dog\<close> extends \<^verbatim>\<open>Animal\<close>, which has one documented
  instance member, and \<^verbatim>\<open>Dog\<close> has no member of its own.
\<close>

definition ex_Animal :: jsobj where
  "ex_Animal = [(''longname'', JStr ''Animal''), (''name'', JStr ''Animal''),
                (''kind'', JStr ''class'')]"

definition ex_speak :: jsobj where
  "ex_speak = [(''longname'', JStr ''Animal#speak''), (''memberof'', JStr ''Animal''),
               (''name'', JStr ''speak''), (''kind'', JStr ''function'')]"

definition ex_Dog :: jsobj where
  "ex_Dog = [(''longname'', JStr ''Dog''), (''name'', JStr ''Dog''),
             (''kind'', JStr ''class''), (''augmentsNested'', JArr [''Animal''])]"

definition ex_zoo :: docletCollection where
  "ex_zoo = \<lparr>get = (\<lambda>category. if category = ''memberof:Animal'' then [ex_speak] else []),
             getAll = [ex_Animal, ex_speak, ex_Dog]\<rparr>"

definition ex_Dog_speak :: jsobj where
  "ex_Dog_speak = [(''longname'', JStr ''Dog#speak''), (''memberof'', JStr ''Dog''),
                   (''name'', JStr ''speak''), (''kind'', JStr ''function''),
                   (''inherited'', JBool True)]"




text \<open>A member whose longname has no separator.\<close>

definition ex_bare :: jsobj where
  "ex_bare = [(''longname'', JStr ''speak''), (''memberof'', JStr ''Animal''),
              (''name'', JStr ''speak''), (''kind'', JStr ''function'')]"

text \<open>A member documented with a bare \<^verbatim>\<open>@inheritdoc\<close>: the field is the empty string.\<close>

definition ex_speak_inheritdoc :: jsobj where
  "ex_speak_inheritdoc =
     [(''longname'', JStr ''Animal#speak''), (''memberof'', JStr ''Animal''),
      (''name'', JStr ''speak''), (''kind'', JStr ''function''),
      (''inheritdoc'', JStr '''')]"

definition ex_zoo_inheritdoc :: docletCollection where
  "ex_zoo_inheritdoc =
     \<lparr>get = (\<lambda>category. if category = ''memberof:Animal'' then [ex_speak_inheritdoc] else []),
      getAll = [ex_Animal, ex_speak_inheritdoc, ex_Dog]\<rparr>"

text \<open>A static and an instance member, and a filter on \<^verbatim>\<open>scope\<close>.\<close>

definition ex_create :: jsobj where
  "ex_create = [(''longname'', JStr ''Animal.create''), (''memberof'', JStr ''Animal''),
                (''name'', JStr ''create''), (''kind'', JStr ''function''),
                (''scope'', JStr ''static'')]"

definition ex_eat :: jsobj where
  "ex_eat = [(''longname'', JStr ''Animal#eat''), (''memberof'', JStr ''Animal''),
             (''name'', JStr ''eat''), (''kind'', JStr ''function''),
             (''scope'', JStr ''instance'')]"

definition ex_zoo_scoped :: docletCollection where
  "ex_zoo_scoped =
     \<lparr>get = (\<lambda>category. if category = ''memberof:Animal'' then [ex_create, ex_eat] else []),
      getAll = [ex_Animal, ex_create, ex_eat, ex_Dog]\<rparr>"

definition ex_static_only :: options where
  "ex_static_only = \<lparr>relation = ''augmentsNested'',
                      filter_opt = Some [(''scope'', JStr ''static'')],
                      onlyImplicitlyInherited = None\<rparr>"

text \<open>
  \<^verbatim>\<open>Dog\<close> already declares \<^verbatim>\<open>speak\<close> twice, once with \<^verbatim>\<open>@inheritdoc\<close> and once with
  \<^verbatim>\<open>@overrides\<close>.
\<close>

definition ex_Dog_speak_a :: jsobj where
  "ex_Dog_speak_a = [(''longname'', JStr ''Dog#speak''), (''memberof'', JStr ''Dog''),
                     (''name'', JStr ''speak''), (''kind'', JStr ''function''),
                     (''inheritdoc'', JStr '''')]"

definition ex_Dog_speak_b :: jsobj where
  "ex_Dog_speak_b = [(''longname'', JStr ''Dog#speak''), (''memberof'', JStr ''Dog''),
                     (''name'', JStr ''speak''), (''kind'', JStr ''function''),
                     (''overrides'', JStr ''Animal#speak'')]"

definition ex_zoo_explicit :: docletCollection where
  "ex_zoo_explicit =
     \<lparr>get = (\<lambda>category. if category = ''memberof:Animal'' then [ex_speak]
                        else if category = ''memberof:Dog''
                          then [ex_Dog_speak_a, ex_Dog_speak_b]
                        else []),
      getAll = [ex_Animal, ex_speak, ex_Dog, ex_Dog_speak_a, ex_Dog_speak_b]\<rparr>"





subsection \<open>A class implementing an interface\<close>

text \<open>
  \<^verbatim>\<open>Task\<close> implements \<^verbatim>\<open>Runnable\<close>; the interface has one member and no
  \<^verbatim>\<open>descendants\<close>.
\<close>

definition ex_Runnable :: jsobj where
  "ex_Runnable = [(''longname'', JStr ''Runnable''), (''name'', JStr ''Runnable''),
                  (''kind'', JStr ''interface'')]"

definition ex_run :: jsobj where
  "ex_run = [(''longname'', JStr ''Runnable#run''), (''memberof'', JStr ''Runnable''),
             (''name'', JStr ''run''), (''kind'', JStr ''function'')]"

definition ex_Task :: jsobj where
  "ex_Task = [(''longname'', JStr ''Task''), (''name'', JStr ''Task''),
              (''kind'', JStr ''class''), (''implementsNested'', JArr [''Runnable''])]"

definition ex_tasks :: docletCollection where
  "ex_tasks = \<lparr>get = (\<lambda>category. if category = ''memberof:Runnable'' then [ex_run] else []),
               getAll = [ex_Runnable, ex_run, ex_Task]\<rparr>"


text \<open>The same store without a doclet for the interface itself.\<close>

definition ex_tasks_orphan :: docletCollection where
  "ex_tasks_orphan =
     \<lparr>get = (\<lambda>category. if category = ''memberof:Runnable'' then [ex_run] else []),
      getAll = [ex_run, ex_Task]\<rparr>"

text \<open>
  A member stored under the interface whose \<^verbatim>\<open>memberof\<close> is \<^verbatim>\<open>toString\<close>, a name of
  \<^verbatim>\<open>Object.prototype\<close>; no doclet has that longname.
\<close>

definition ex_toString_run :: jsobj where
  "ex_toString_run = [(''longname'', JStr ''toString#run''), (''memberof'', JStr ''toString''),
                      (''name'', JStr ''run''), (''kind'', JStr ''function'')]"

definition ex_tasks_toString :: docletCollection where
  "ex_tasks_toString =
     \<lparr>get = (\<lambda>category. if category = ''memberof:Runnable'' then [ex_toString_run] else []),
      getAll = [ex_toString_run, ex_Task]\<rparr>"

text \<open>\<^verbatim>\<open>Task\<close> already declares \<^verbatim>\<open>run\<close> twice, without \<^verbatim>\<open>@inheritdoc\<close>.\<close>

definition ex_Task_run_a :: jsobj where
  "ex_Task_run_a = [(''longname'', JStr ''Task#run''), (''memberof'', JStr ''Task''),
                    (''name'', JStr ''run''), (''kind'', JStr ''function''),
                    (''description'', JStr ''first'')]"

definition ex_Task_run_b :: jsobj where
  "ex_Task_run_b = [(''longname'', JStr ''Task#run''), (''memberof'', JStr ''Task''),
                    (''name'', JStr ''run''), (''kind'', JStr ''function''),
                    (''description'', JStr ''second'')]"

definition ex_tasks_twice :: docletCollection where
  "ex_tasks_twice =
     \<lparr>get = (\<lambda>category. if category = ''memberof:Runnable'' then [ex_run]
                        else if category = ''memberof:Task''
                          then [ex_Task_run_a, ex_Task_run_b]
                        else []),
      getAll = [ex_Runnable, ex_run, ex_Task, ex_Task_run_a, ex_Task_run_b]\<rparr>"

subsection \<open>An interface reached through a mixin and through a class\<close>

text \<open>
  \<^verbatim>\<open>Emitter\<close> is implemented by the mixin \<^verbatim>\<open>EmitterMixin\<close> and by the class
  \<^verbatim>\<open>Base\<close>; \<^verbatim>\<open>Widget\<close> descends from both.
\<close>

definition ex_Emitter :: jsobj where
  "ex_Emitter = [(''longname'', JStr ''Emitter''), (''kind'', JStr ''interface''),
                 (''descendants'', JArr [''EmitterMixin'', ''Base'', ''Widget''])]"

definition ex_EmitterMixin :: jsobj where
  "ex_EmitterMixin = [(''longname'', JStr ''EmitterMixin''), (''kind'', JStr ''mixin''),
                      (''descendants'', JArr [''Base'', ''Widget''])]"

definition ex_Base :: jsobj where
  "ex_Base = [(''longname'', JStr ''Base''), (''kind'', JStr ''class''),
              (''descendants'', JArr [''Widget''])]"

definition ex_Widget :: jsobj where
  "ex_Widget = [(''longname'', JStr ''Widget''), (''kind'', JStr ''class''),
                (''implementsNested'', JArr [''Emitter'', ''Runnable''])]"

definition ex_on :: jsobj where
  "ex_on = [(''longname'', JStr ''Emitter#on''), (''memberof'', JStr ''Emitter''),
            (''name'', JStr ''on''), (''kind'', JStr ''function'')]"

definition ex_widgets :: docletCollection where
  "ex_widgets = \<lparr>get = (\<lambda>category. if category = ''memberof:Emitter'' then [ex_on] else []),
                 getAll = [ex_Emitter, ex_EmitterMixin, ex_Base, ex_Widget, ex_on]\<rparr>"




section \<open>Auxiliary lemmas\<close>

lemma getProp_setProp:
  "getProp (setProp obj key v) k = (if k = key then v else getProp obj k)"
  by (induction obj) (auto simp: getProp_def)

lemma lastIndexOf_ge: "- 1 \<le> lastIndexOf xs x"
  by (induction xs) (auto simp: Let_def)

lemma lastIndexOf_notin: "x \<notin> set xs \<Longrightarrow> lastIndexOf xs x = - 1"
  by (induction xs) (auto simp: Let_def)

lemma lastIndexOf_lt: "lastIndexOf xs x < int (length xs)"
  by (induction xs) (auto simp: Let_def)



lemma slice_minus_one: "slice xs (- 1) = (if xs = [] then [] else [last xs])"
proof (cases xs rule: rev_cases)
  case Nil
  then show ?thesis by (simp add: slice_def)
next
  case (snoc ys y)
  then show ?thesis by (simp add: slice_def Let_def)
qed


lemma getRelationProperty_cases:
  "getRelationProperty dm child member rel = Inr rp \<Longrightarrow>
   rp = JStr ''inherited'' \<or> rp = JStr ''mixed'' \<or> rp = JNull"
  by (auto simp: getRelationProperty_def Let_def split: if_splits option.splits prod.splits)



lemma makeClonedDoclet_fields:
  assumes "makeClonedDoclet dm target opts c = Inr (cd, rp)"
  shows "\<exists>ln. getLongnameForNewDoclet c target = Inr ln \<and>
              getRelationProperty dm target c (relation opts) = Inr rp \<and>
              cd = (if truthy rp
                    then setProp (setProp (setProp c ''longname'' (JStr ln)) ''memberof''
                           (getProp target ''longname'')) (toStr rp) (JBool True)
                    else setProp (setProp c ''longname'' (JStr ln)) ''memberof''
                           (getProp target ''longname''))"
  using assms
  by (auto simp: makeClonedDoclet_def cloneDeep_def Let_def split: sum.splits)

lemma makeClonedDoclet_getProp:
  assumes "makeClonedDoclet dm target opts c = Inr (cd, rp)"
  shows "\<exists>ln. getLongnameForNewDoclet c target = Inr ln \<and>
           (\<forall>k. getProp cd k =
              (if k = ''inherited'' \<and> rp = JStr ''inherited'' then JBool True
               else if k = ''mixed'' \<and> rp = JStr ''mixed'' then JBool True
               else if k = ''memberof'' then getProp target ''longname''
               else if k = ''longname'' then JStr ln
               else getProp c k))"
proof -
  from makeClonedDoclet_fields [OF assms] obtain ln where
    ln: "getLongnameForNewDoclet c target = Inr ln"
    and rp: "getRelationProperty dm target c (relation opts) = Inr rp"
    and cd: "cd = (if truthy rp
                    then setProp (setProp (setProp c ''longname'' (JStr ln)) ''memberof''
                           (getProp target ''longname'')) (toStr rp) (JBool True)
                    else setProp (setProp c ''longname'' (JStr ln)) ''memberof''
                           (getProp target ''longname''))"
    by blast
  from getRelationProperty_cases [OF rp] cd
  have "\<forall>k. getProp cd k =
              (if k = ''inherited'' \<and> rp = JStr ''inherited'' then JBool True
               else if k = ''mixed'' \<and> rp = JStr ''mixed'' then JBool True
               else if k = ''memberof'' then getProp target ''longname''
               else if k = ''longname'' then JStr ln
               else getProp c k)"
    by (auto simp: getProp_setProp)
  with ln show ?thesis by blast
qed

lemma strictEq_JStr: "strictEq v (JStr s) = (v = JStr s)"
  by (cases v) auto

lemma includes_iff:
  "(isNonEmptyArray d \<and> descendantsInclude d l) =
   (case (d, l) of (JArr ds', JStr t) \<Rightarrow> t \<in> set ds' | _ \<Rightarrow> False)"
  by (cases d; cases l) auto

lemma scanDescendants_eq:
  "scanDescendants dm target ds (i, m) =
     (i \<or> list_ex (spec_relatedDescendant dm target ''class'') ds, m \<or> list_ex (spec_relatedDescendant dm target ''mixin'') ds)"
proof (induction ds arbitrary: i m)
  case Nil
  then show ?case by simp
next
  case (Cons l ds)
  show ?case
  proof (cases "dm l")
    case None
    then show ?thesis by (simp add: Cons.IH spec_relatedDescendant_def)
  next
    case (Some d)
    then show ?thesis
      by (auto simp: Cons.IH spec_relatedDescendant_def strictEq_JStr includes_iff)
  qed
qed

lemma getRelationProperty_implements:
  assumes "rel \<noteq> ''augmentsNested''" "rel \<noteq> ''mixesNested''"
    and "dm (toStr (getProp member ''memberof'')) = Some parent"
  shows "getRelationProperty dm target member rel =
           Inr (if spec_descendantOfKind dm parent target ''mixin'' then JStr ''mixed''
                else if spec_descendantOfKind dm parent target ''class'' then JStr ''inherited''
                else JNull)"
proof (cases "getProp parent ''descendants''")
  case (JArr ds)
  then show ?thesis
    using assms
    by (cases "ds = []")
       (simp_all add: getRelationProperty_def spec_descendantOfKind_def scanDescendants_eq)
qed (use assms in \<open>simp_all add: getRelationProperty_def spec_descendantOfKind_def\<close>)

lemma set_foldl_filter:
  "set (foldl (\<lambda>acc l. acc @ filter P (g l)) init as) =
     set init \<union> {m. \<exists>a \<in> set as. m \<in> set (g a) \<and> P m}"
  by (induction as arbitrary: init) auto

lemma readProp_own:
  "getProp obj key = JArr xs \<Longrightarrow> readProp obj key = Value (JArr xs)"
  by (auto simp: getProp_def readProp_def split: option.splits)

lemma getDocletsToAdd_array:
  assumes "readProp child (relation opts) = Value (JArr ancestors)"
  shows "\<exists>cands. getDocletsToAdd coll child opts = Inr cands \<and>
           set cands = {m. \<exists>a \<in> set ancestors.
                          m \<in> set (get coll (''memberof:'' @ a)) \<and> shouldDocletBeAdded opts m}"
  using assms
    set_foldl_filter [of "shouldDocletBeAdded opts" "\<lambda>a. get coll (''memberof:'' @ a)" "[]" ancestors]
  by (simp add: getDocletsToAdd_def)

lemma getDocletsToAdd_falsy:
  assumes "readProp child (relation opts) = Value v" and "\<not> truthy v"
  shows "getDocletsToAdd coll child opts = Inr []"
  using assms by (simp add: getDocletsToAdd_def)

lemma docletsOfSameMember_clone:
  assumes "makeClonedDoclet dm target opts c = Inr (cd, rp)"
  shows "docletsOfSameMember coll cd =
           filter (\<lambda>d. strictEq (getProp d ''name'') (getProp c ''name'') \<and>
                       strictEq (getProp d ''kind'') (getProp c ''kind''))
             (get coll (''memberof:'' @ toStr (getProp target ''longname'')))"
  using makeClonedDoclet_getProp [OF assms]
  by (auto simp: docletsOfSameMember_def)

lemma pushDoclets_mono:
  "set (newDoclets acc) \<subseteq> set (newDoclets (pushDoclets opts cd rp sm acc)) \<and>
   set (docletsWhichShouldBeIgnored acc) \<subseteq>
     set (docletsWhichShouldBeIgnored (pushDoclets opts cd rp sm acc))"
  by (auto simp: pushDoclets_def Let_def)

lemma processDocletToAdd_mono:
  assumes "processDocletToAdd coll dm target opts c acc = Inr acc'"
  shows "set (newDoclets acc) \<subseteq> set (newDoclets acc') \<and>
         set (docletsWhichShouldBeIgnored acc) \<subseteq> set (docletsWhichShouldBeIgnored acc')"
proof -
  from assms obtain cd rp where
    "acc' = pushDoclets opts cd rp (docletsOfSameMember coll cd) acc"
    by (auto simp: processDocletToAdd_def split: sum.splits prod.splits)
  then show ?thesis using pushDoclets_mono by simp
qed

lemma processDocletsToAdd_mono:
  "processDocletsToAdd coll dm target opts cs acc = Inr res \<Longrightarrow>
   set (newDoclets acc) \<subseteq> set (newDoclets res) \<and>
   set (docletsWhichShouldBeIgnored acc) \<subseteq> set (docletsWhichShouldBeIgnored res)"
proof (induction cs arbitrary: acc)
  case Nil
  then show ?case by simp
next
  case (Cons c cs)
  from Cons.prems obtain acc' where
    a: "processDocletToAdd coll dm target opts c acc = Inr acc'"
    and b: "processDocletsToAdd coll dm target opts cs acc' = Inr res"
    by (auto split: sum.splits)
  from processDocletToAdd_mono [OF a] Cons.IH [OF b] show ?case by blast
qed

lemma processDocletsToAdd_iteration:
  "processDocletsToAdd coll dm target opts cs acc = Inr res \<Longrightarrow> c \<in> set cs \<Longrightarrow>
   \<exists>acc1 acc2. processDocletToAdd coll dm target opts c acc1 = Inr acc2 \<and>
     set (newDoclets acc2) \<subseteq> set (newDoclets res) \<and>
     set (docletsWhichShouldBeIgnored acc2) \<subseteq> set (docletsWhichShouldBeIgnored res)"
proof (induction cs arbitrary: acc)
  case Nil
  then show ?case by simp
next
  case (Cons x cs)
  from Cons.prems(1) obtain acc' where
    a: "processDocletToAdd coll dm target opts x acc = Inr acc'"
    and b: "processDocletsToAdd coll dm target opts cs acc' = Inr res"
    by (auto split: sum.splits)
  show ?case
  proof (cases "c = x")
    case True
    with a processDocletsToAdd_mono [OF b] show ?thesis by blast
  next
    case False
    with Cons.prems(2) have "c \<in> set cs" by simp
    from Cons.IH [OF b this] show ?thesis .
  qed
qed

lemma getMissingDocletsData_iteration:
  assumes "getDocletsToAdd coll target opts = Inr cands"
    and "getMissingDocletsData coll target opts = Inr res"
    and "c \<in> set cands"
  shows "\<exists>acc1 acc2.
     processDocletToAdd coll (createDocletMap coll) target opts c acc1 = Inr acc2 \<and>
     set (newDoclets acc2) \<subseteq> set (newDoclets res) \<and>
     set (docletsWhichShouldBeIgnored acc2) \<subseteq> set (docletsWhichShouldBeIgnored res)"
proof -
  from assms(1,2) have
    "processDocletsToAdd coll (createDocletMap coll) target opts cands
       \<lparr>newDoclets = [], docletsWhichShouldBeIgnored = []\<rparr> = Inr res"
    by (simp add: getMissingDocletsData_def)
  from processDocletsToAdd_iteration [OF this assms(3)] show ?thesis .
qed

lemma processDocletToAdd_Inr:
  assumes "processDocletToAdd coll dm target opts c acc1 = Inr acc2"
  shows "\<exists>cd rp. makeClonedDoclet dm target opts c = Inr (cd, rp) \<and>
           (\<forall>acc. processDocletToAdd coll dm target opts c acc =
              Inr (pushDoclets opts cd rp (docletsOfSameMember coll cd) acc))"
  using assms by (auto simp: processDocletToAdd_def split: sum.splits prod.splits)






lemma createDocletMap_loop_found:
  "createDocletMap_loop ds m k \<noteq> None \<longleftrightarrow>
     m k \<noteq> None \<or> (\<exists>p \<in> set ds. toStr (getProp p ''longname'') = k)"
  by (induction ds arbitrary: m) (auto simp: Let_def)

lemma createDocletMap_found:
  "createDocletMap coll k \<noteq> None \<longleftrightarrow>
     k \<in> set objectPrototypeKeys \<or>
     (\<exists>p \<in> set (getAll coll). toStr (getProp p ''longname'') = k)"
  unfolding createDocletMap_def createDocletMap_loop_found
  by (simp add: emptyObject_def)

lemma only_TypeError: "(\<nexists>y. (r :: error + 'a) = Inr y) \<Longrightarrow> r = Inl TypeError"
proof (cases r)
  case (Inl e)
  then show ?thesis by (cases e) simp
next
  case (Inr y)
  assume "\<nexists>y. r = Inr y"
  with Inr show ?thesis by simp
qed

lemma processDocletsToAdd_returns_iff:
  "(\<exists>res. processDocletsToAdd coll dm target opts cs acc = Inr res) \<longleftrightarrow>
   (\<forall>c \<in> set cs. \<exists>x. makeClonedDoclet dm target opts c = Inr x)"
proof (induction cs arbitrary: acc)
  case Nil
  then show ?case by simp
next
  case (Cons c cs)
  show ?case
  proof (cases "makeClonedDoclet dm target opts c")
    case (Inl e)
    then show ?thesis by (simp add: processDocletToAdd_def)
  next
    case (Inr x)
    then obtain acc' where "processDocletToAdd coll dm target opts c acc = Inr acc'"
      by (cases x) (simp add: processDocletToAdd_def)
    with Inr Cons.IH [of acc'] show ?thesis by simp
  qed
qed

lemma makeClonedDoclet_returns_iff:
  assumes "isString (getProp c ''longname'')"
  shows "(\<exists>x. makeClonedDoclet dm target opts c = Inr x) \<longleftrightarrow>
         (relation opts = ''augmentsNested'' \<or> relation opts = ''mixesNested'' \<or>
          dm (toStr (getProp c ''memberof'')) \<noteq> None)"
proof -
  from assms obtain s where "getProp c ''longname'' = JStr s"
    by (cases "getProp c ''longname''") auto
  then obtain ln where ln: "getLongnameForNewDoclet c target = Inr ln"
    by (simp add: getLongnameForNewDoclet_def Let_def)
  show ?thesis
  proof (cases "relation opts = ''augmentsNested'' \<or> relation opts = ''mixesNested''")
    case True
    then obtain rp where "getRelationProperty dm target c (relation opts) = Inr rp"
      by (auto simp: getRelationProperty_def)
    with ln True show ?thesis by (auto simp: makeClonedDoclet_def Let_def)
  next
    case False
    show ?thesis
    proof (cases "dm (toStr (getProp c ''memberof''))")
      case None
      with False have "getRelationProperty dm target c (relation opts) = Inl TypeError"
        by (simp add: getRelationProperty_def)
      with ln None False show ?thesis by (simp add: makeClonedDoclet_def Let_def)
    next
      case (Some parent)
      with False getRelationProperty_implements [of "relation opts" dm c parent target]
      obtain rp where "getRelationProperty dm target c (relation opts) = Inr rp"
        by simp
      with ln Some show ?thesis by (simp add: makeClonedDoclet_def Let_def)
    qed
  qed
qed

section \<open>The claims\<close>

subsection \<open>C1: the relation fields of the new doclets\<close>




subsection \<open>C2: when the call returns and when it raises\<close>

text \<open>
  C2, as amended. Suppose the relation field of the target, read under the relation
  name, is a value that is falsy or an array, and every candidate member has a string
  as its longname. Then the call returns a result, without raising, exactly when the
  field is falsy, or the relation is \<^verbatim>\<open>augmentsNested\<close> or \<^verbatim>\<open>mixesNested\<close>, or the
  \<^verbatim>\<open>memberof\<close> of every candidate is the longname of some doclet of \<^verbatim>\<open>getAll()\<close> or the
  name of a member of \<^verbatim>\<open>Object.prototype\<close> (which the doclet map inherits); in every
  other such case it raises a \<^verbatim>\<open>TypeError\<close>. Nothing is asked of the separators in the
  longnames, of the uniqueness of longnames or of the relation arrays being closed.
\<close>

theorem getMissingDocletsData_returns:
  assumes "readProp target (relation opts) = Value v"
    and "\<not> truthy v \<or> v = JArr ancestors"
    and "\<forall>a \<in> set ancestors. \<forall>c \<in> set (get coll (''memberof:'' @ a)).
           shouldDocletBeAdded opts c \<longrightarrow> isString (getProp c ''longname'')"
  shows "if \<not> truthy v \<or>
            relation opts = ''augmentsNested'' \<or> relation opts = ''mixesNested'' \<or>
            (\<forall>a \<in> set ancestors. \<forall>c \<in> set (get coll (''memberof:'' @ a)).
               shouldDocletBeAdded opts c \<longrightarrow>
                 toStr (getProp c ''memberof'') \<in> set objectPrototypeKeys \<or>
                 (\<exists>p \<in> set (getAll coll).
                    toStr (getProp p ''longname'') = toStr (getProp c ''memberof'')))
         then \<exists>res. getMissingDocletsData coll target opts = Inr res
         else getMissingDocletsData coll target opts = Inl TypeError"
proof (cases "truthy v")
  case False
  with assms(1) have "getDocletsToAdd coll target opts = Inr []"
    by (simp add: getDocletsToAdd_falsy)
  with False show ?thesis by (simp add: getMissingDocletsData_def)
next
  case True
  let ?dm = "createDocletMap coll"
  from True assms(1,2) have arr: "readProp target (relation opts) = Value (JArr ancestors)"
    by simp
  from getDocletsToAdd_array [OF arr, of coll] obtain cands where
    c: "getDocletsToAdd coll target opts = Inr cands"
    and s: "set cands = {m. \<exists>a \<in> set ancestors.
              m \<in> set (get coll (''memberof:'' @ a)) \<and> shouldDocletBeAdded opts m}"
    by blast
  have str: "\<forall>c \<in> set cands. isString (getProp c ''longname'')"
    using s assms(3) by auto
  have "(\<exists>res. getMissingDocletsData coll target opts = Inr res) \<longleftrightarrow>
        (\<forall>c \<in> set cands. \<exists>x. makeClonedDoclet ?dm target opts c = Inr x)"
    using c processDocletsToAdd_returns_iff [of coll ?dm target opts cands]
    by (simp add: getMissingDocletsData_def)
  also have "\<dots> \<longleftrightarrow>
        (\<forall>c \<in> set cands.
           relation opts = ''augmentsNested'' \<or> relation opts = ''mixesNested'' \<or>
           ?dm (toStr (getProp c ''memberof'')) \<noteq> None)"
    using str makeClonedDoclet_returns_iff [of _ ?dm target opts] by blast
  also have "\<dots> \<longleftrightarrow>
        (relation opts = ''augmentsNested'' \<or> relation opts = ''mixesNested'' \<or>
         (\<forall>c \<in> set cands.
            toStr (getProp c ''memberof'') \<in> set objectPrototypeKeys \<or>
            (\<exists>p \<in> set (getAll coll).
               toStr (getProp p ''longname'') = toStr (getProp c ''memberof''))))"
    unfolding createDocletMap_found by blast
  also have "\<dots> \<longleftrightarrow>
        (relation opts = ''augmentsNested'' \<or> relation opts = ''mixesNested'' \<or>
         (\<forall>a \<in> set ancestors. \<forall>c \<in> set (get coll (''memberof:'' @ a)).
            shouldDocletBeAdded opts c \<longrightarrow>
              toStr (getProp c ''memberof'') \<in> set objectPrototypeKeys \<or>
              (\<exists>p \<in> set (getAll coll).
                 toStr (getProp p ''longname'') = toStr (getProp c ''memberof''))))"
    unfolding s by blast
  finally have iff: "(\<exists>res. getMissingDocletsData coll target opts = Inr res) \<longleftrightarrow>
        (relation opts = ''augmentsNested'' \<or> relation opts = ''mixesNested'' \<or>
         (\<forall>a \<in> set ancestors. \<forall>c \<in> set (get coll (''memberof:'' @ a)).
            shouldDocletBeAdded opts c \<longrightarrow>
              toStr (getProp c ''memberof'') \<in> set objectPrototypeKeys \<or>
              (\<exists>p \<in> set (getAll coll).
                 toStr (getProp p ''longname'') = toStr (getProp c ''memberof''))))" .
  show ?thesis
  proof (cases "\<exists>res. getMissingDocletsData coll target opts = Inr res")
    case True
    with iff show ?thesis by simp
  next
    case False
    then have "getMissingDocletsData coll target opts = Inl TypeError"
      by (rule only_TypeError)
    with False iff \<open>truthy v\<close> show ?thesis by simp
  qed
qed

theorem getMissingDocletsData_returns_witness:
  "readProp ex_Task (relation (optionsFor ''implementsNested'')) = Value (JArr [''Runnable'']) \<and>
   get ex_tasks (''memberof:'' @ ''Runnable'') = [ex_run] \<and>
   isString (getProp ex_run ''longname'') \<and>
   (\<exists>p \<in> set (getAll ex_tasks).
      toStr (getProp p ''longname'') = toStr (getProp ex_run ''memberof'')) \<and>
   (\<exists>res. getMissingDocletsData ex_tasks ex_Task (optionsFor ''implementsNested'') = Inr res) \<and>
   get ex_tasks_toString (''memberof:'' @ ''Runnable'') = [ex_toString_run] \<and>
   getProp ex_toString_run ''memberof'' = JStr ''toString'' \<and>
   (\<exists>res. getMissingDocletsData ex_tasks_toString ex_Task (optionsFor ''implementsNested'') =
            Inr res) \<and>
   get ex_tasks_orphan (''memberof:'' @ ''Runnable'') = [ex_run] \<and>
   getMissingDocletsData ex_tasks_orphan ex_Task (optionsFor ''implementsNested'') =
     Inl TypeError"
proof -
  let ?opts = "optionsFor ''implementsNested''"
  have h1: "readProp ex_Task (relation ?opts) = Value (JArr [''Runnable''])"
    by code_simp
  have h2: "\<not> truthy (JArr [''Runnable'']) \<or> JArr [''Runnable''] = JArr [''Runnable'']"
    by simp
  have s1: "\<forall>a \<in> set [''Runnable'']. \<forall>c \<in> set (get ex_tasks (''memberof:'' @ a)).
              shouldDocletBeAdded ?opts c \<longrightarrow> isString (getProp c ''longname'')"
    by code_simp
  have s2: "\<forall>a \<in> set [''Runnable'']. \<forall>c \<in> set (get ex_tasks_toString (''memberof:'' @ a)).
              shouldDocletBeAdded ?opts c \<longrightarrow> isString (getProp c ''longname'')"
    by code_simp
  have s3: "\<forall>a \<in> set [''Runnable'']. \<forall>c \<in> set (get ex_tasks_orphan (''memberof:'' @ a)).
              shouldDocletBeAdded ?opts c \<longrightarrow> isString (getProp c ''longname'')"
    by code_simp
  have b1: "\<not> truthy (JArr [''Runnable'']) \<or>
            relation ?opts = ''augmentsNested'' \<or> relation ?opts = ''mixesNested'' \<or>
            (\<forall>a \<in> set [''Runnable'']. \<forall>c \<in> set (get ex_tasks (''memberof:'' @ a)).
               shouldDocletBeAdded ?opts c \<longrightarrow>
                 toStr (getProp c ''memberof'') \<in> set objectPrototypeKeys \<or>
                 (\<exists>p \<in> set (getAll ex_tasks).
                    toStr (getProp p ''longname'') = toStr (getProp c ''memberof'')))"
    by code_simp
  have b2: "\<not> truthy (JArr [''Runnable'']) \<or>
            relation ?opts = ''augmentsNested'' \<or> relation ?opts = ''mixesNested'' \<or>
            (\<forall>a \<in> set [''Runnable'']. \<forall>c \<in> set (get ex_tasks_toString (''memberof:'' @ a)).
               shouldDocletBeAdded ?opts c \<longrightarrow>
                 toStr (getProp c ''memberof'') \<in> set objectPrototypeKeys \<or>
                 (\<exists>p \<in> set (getAll ex_tasks_toString).
                    toStr (getProp p ''longname'') = toStr (getProp c ''memberof'')))"
    by code_simp
  have b3: "\<not> (\<not> truthy (JArr [''Runnable'']) \<or>
            relation ?opts = ''augmentsNested'' \<or> relation ?opts = ''mixesNested'' \<or>
            (\<forall>a \<in> set [''Runnable'']. \<forall>c \<in> set (get ex_tasks_orphan (''memberof:'' @ a)).
               shouldDocletBeAdded ?opts c \<longrightarrow>
                 toStr (getProp c ''memberof'') \<in> set objectPrototypeKeys \<or>
                 (\<exists>p \<in> set (getAll ex_tasks_orphan).
                    toStr (getProp p ''longname'') = toStr (getProp c ''memberof''))))"
    by code_simp
  have r1: "\<exists>res. getMissingDocletsData ex_tasks ex_Task ?opts = Inr res"
    using getMissingDocletsData_returns [OF h1 h2 s1] b1 by (simp only: if_True)
  have r2: "\<exists>res. getMissingDocletsData ex_tasks_toString ex_Task ?opts = Inr res"
    using getMissingDocletsData_returns [OF h1 h2 s2] b2 by (simp only: if_True)
  have r3: "getMissingDocletsData ex_tasks_orphan ex_Task ?opts = Inl TypeError"
    using getMissingDocletsData_returns [OF h1 h2 s3] b3 by (simp only: if_False)
  have f2: "get ex_tasks (''memberof:'' @ ''Runnable'') = [ex_run]" by code_simp
  have f3: "isString (getProp ex_run ''longname'')" by code_simp
  have f4: "\<exists>p \<in> set (getAll ex_tasks).
              toStr (getProp p ''longname'') = toStr (getProp ex_run ''memberof'')"
    by code_simp
  have f5: "get ex_tasks_toString (''memberof:'' @ ''Runnable'') = [ex_toString_run]"
    by code_simp
  have f6: "getProp ex_toString_run ''memberof'' = JStr ''toString''" by code_simp
  have f7: "get ex_tasks_orphan (''memberof:'' @ ''Runnable'') = [ex_run]" by code_simp
  show ?thesis
    by (rule conjI [OF h1 conjI [OF f2 conjI [OF f3 conjI [OF f4 conjI [OF r1 conjI [OF f5 conjI [OF f6 conjI [OF r2 conjI [OF f7 r3]]]]]]]]])
qed

text \<open>
  C2 as stated fails: under the implements relation, a candidate whose \<^verbatim>\<open>memberof\<close>
  has no doclet in \<^verbatim>\<open>getAll()\<close> makes \<^verbatim>\<open>memberDocletParent\<close> undefined, and reading its
  \<^verbatim>\<open>descendants\<close> raises a \<^verbatim>\<open>TypeError\<close>.
\<close>

theorem getMissingDocletsData_raises_counterexample:
  "getDocletsToAdd ex_tasks_orphan ex_Task (optionsFor ''implementsNested'') = Inr [ex_run] \<and>
   createDocletMap ex_tasks_orphan (toStr (getProp ex_run ''memberof'')) = None \<and>
   getMissingDocletsData ex_tasks_orphan ex_Task (optionsFor ''implementsNested'') =
     Inl TypeError"
  by code_simp

subsection \<open>C3: a longname without a separator\<close>

text \<open>
  C3, as amended. When the longname of the candidate member is a string containing
  neither \<^verbatim>\<open>.\<close> nor \<^verbatim>\<open>#\<close>, both \<^verbatim>\<open>lastIndexOf\<close> calls give \<open>-1\<close> and \<^verbatim>\<open>slice( -1 )\<close>
  takes the last character: the computed longname is that of the target followed by
  the last character of the candidate's longname. The suffix is empty only when the
  candidate's longname is the empty string.
\<close>

theorem getLongnameForNewDoclet_no_separator:
  assumes "getProp parentDoclet ''longname'' = JStr s"
    and "CHR ''.'' \<notin> set s" and "CHR ''#'' \<notin> set s"
  shows "getLongnameForNewDoclet parentDoclet childDoclet =
           Inr (toStr (getProp childDoclet ''longname'') @ (if s = [] then [] else [last s]))"
  using assms
  by (simp add: getLongnameForNewDoclet_def Let_def lastIndexOf_notin slice_minus_one)

theorem getLongnameForNewDoclet_no_separator_witness:
  "getProp ex_Animal ''longname'' = JStr ''Animal'' \<and>
   CHR ''.'' \<notin> set ''Animal'' \<and> CHR ''#'' \<notin> set ''Animal'' \<and>
   getLongnameForNewDoclet ex_Animal ex_Dog =
     Inr (toStr (getProp ex_Dog ''longname'') @
          (if ''Animal'' = [] then [] else [last ''Animal'']))"
proof -
  have h1: "getProp ex_Animal ''longname'' = JStr ''Animal''" by code_simp
  have h2: "CHR ''.'' \<notin> set ''Animal''" by simp
  have h3: "CHR ''#'' \<notin> set ''Animal''" by simp
  show ?thesis
    by (rule conjI [OF h1 conjI [OF h2 conjI [OF h3
          getLongnameForNewDoclet_no_separator [OF h1 h2 h3]]]])
qed

text \<open>
  C3 as stated fails: for the candidate longname \<^verbatim>\<open>speak\<close> and the target \<^verbatim>\<open>Dog\<close> the
  result is \<^verbatim>\<open>Dogk\<close>, not \<^verbatim>\<open>Dog\<close>.
\<close>

theorem getLongnameForNewDoclet_no_separator_counterexample:
  "getProp ex_bare ''longname'' = JStr ''speak'' \<and>
   CHR ''.'' \<notin> set ''speak'' \<and> CHR ''#'' \<notin> set ''speak'' \<and>
   getProp ex_Dog ''longname'' = JStr ''Dog'' \<and>
   getLongnameForNewDoclet ex_bare ex_Dog = Inr ''Dogk'' \<and>
   getLongnameForNewDoclet ex_bare ex_Dog \<noteq> Inr ''Dog''"
  by code_simp

subsection \<open>C4: which members are kept as candidates\<close>

text \<open>
  C4, as amended. A member stored under an ancestor listed in the relation array of the
  target is among the candidates if and only if its \<^verbatim>\<open>ignore\<close> is falsy, its
  \<^verbatim>\<open>undocumented\<close> is falsy, its \<^verbatim>\<open>inheritdoc\<close> is not a string (of any length, the
  empty string included), and for every key of \<^verbatim>\<open>options.filter\<close> the member's value,
  as \<^verbatim>\<open>doclet[ key ]\<close> reads it, is \<^verbatim>\<open>===\<close> to the filter's.
\<close>

theorem getDocletsToAdd_keeps_iff:
  assumes "getProp child (relation opts) = JArr ancestors"
    and "a \<in> set ancestors"
    and "m \<in> set (get coll (''memberof:'' @ a))"
  shows "\<exists>cands. getDocletsToAdd coll child opts = Inr cands \<and>
           (m \<in> set cands \<longleftrightarrow>
              \<not> truthy (getProp m ''ignore'') \<and>
              \<not> truthy (getProp m ''undocumented'') \<and>
              \<not> isString (getProp m ''inheritdoc'') \<and>
              (\<forall>flt. filter_opt opts = Some flt \<longrightarrow>
                 (\<forall>key \<in> fst ` set flt.
                    strictEqRead (readProp m key) (getProp flt key))))"
proof -
  from getDocletsToAdd_array [OF readProp_own [OF assms(1)], of coll] obtain cands where
    c: "getDocletsToAdd coll child opts = Inr cands"
    and s: "set cands = {m. \<exists>a \<in> set ancestors.
                          m \<in> set (get coll (''memberof:'' @ a)) \<and> shouldDocletBeAdded opts m}"
    by blast
  have "m \<in> set cands \<longleftrightarrow> shouldDocletBeAdded opts m"
    using s assms(2,3) by auto
  also have "\<dots> \<longleftrightarrow>
              \<not> truthy (getProp m ''ignore'') \<and>
              \<not> truthy (getProp m ''undocumented'') \<and>
              \<not> isString (getProp m ''inheritdoc'') \<and>
              (\<forall>flt. filter_opt opts = Some flt \<longrightarrow>
                 (\<forall>key \<in> fst ` set flt.
                    strictEqRead (readProp m key) (getProp flt key)))"
    by (cases "filter_opt opts") (auto simp: shouldDocletBeAdded_def list_all_iff)
  finally show ?thesis using c by blast
qed

theorem getDocletsToAdd_keeps_iff_witness:
  "getProp ex_Dog (relation ex_static_only) = JArr [''Animal''] \<and>
   ''Animal'' \<in> set [''Animal''] \<and>
   ex_create \<in> set (get ex_zoo_scoped (''memberof:'' @ ''Animal'')) \<and>
   (\<exists>cands. getDocletsToAdd ex_zoo_scoped ex_Dog ex_static_only = Inr cands \<and>
      (ex_create \<in> set cands \<longleftrightarrow>
         \<not> truthy (getProp ex_create ''ignore'') \<and>
         \<not> truthy (getProp ex_create ''undocumented'') \<and>
         \<not> isString (getProp ex_create ''inheritdoc'') \<and>
         (\<forall>flt. filter_opt ex_static_only = Some flt \<longrightarrow>
            (\<forall>key \<in> fst ` set flt.
               strictEqRead (readProp ex_create key) (getProp flt key)))))"
proof -
  have h1: "getProp ex_Dog (relation ex_static_only) = JArr [''Animal'']" by code_simp
  have h2: "''Animal'' \<in> set [''Animal'']" by simp
  have h3: "ex_create \<in> set (get ex_zoo_scoped (''memberof:'' @ ''Animal''))" by code_simp
  show ?thesis
    by (rule conjI [OF h1 conjI [OF h2 conjI [OF h3
          getDocletsToAdd_keeps_iff [OF h1 h2 h3]]]])
qed

text \<open>
  C4 as stated fails: a member whose \<^verbatim>\<open>inheritdoc\<close> is the empty string is not
  ignored, not undocumented, has no non-empty \<^verbatim>\<open>inheritdoc\<close> and meets the (absent)
  filter, yet it is not kept.
\<close>

theorem getDocletsToAdd_keeps_iff_counterexample:
  "getProp ex_Dog (relation (optionsFor ''augmentsNested'')) = JArr [''Animal''] \<and>
   ex_speak_inheritdoc \<in> set (get ex_zoo_inheritdoc ''memberof:Animal'') \<and>
   \<not> truthy (getProp ex_speak_inheritdoc ''ignore'') \<and>
   \<not> truthy (getProp ex_speak_inheritdoc ''undocumented'') \<and>
   getProp ex_speak_inheritdoc ''inheritdoc'' = JStr [] \<and>
   filter_opt (optionsFor ''augmentsNested'') = None \<and>
   getDocletsToAdd ex_zoo_inheritdoc ex_Dog (optionsFor ''augmentsNested'') = Inr []"
  by code_simp

subsection \<open>C5: the longname and the memberof of the emitted clone\<close>




subsection \<open>C6: the extends and mixes relations\<close>

text \<open>
  C6. For the relation \<^verbatim>\<open>augmentsNested\<close> the relation property is \<^verbatim>\<open>'inherited'\<close> and
  for \<^verbatim>\<open>mixesNested\<close> it is \<^verbatim>\<open>'mixed'\<close>, whatever the doclet map, the target and the
  member are: no \<^verbatim>\<open>descendants\<close> list is consulted, and the call cannot raise.
\<close>

theorem getRelationProperty_extends_mixes:
  "getRelationProperty dm child member ''augmentsNested'' = Inr (JStr ''inherited'') \<and>
   getRelationProperty dm child member ''mixesNested'' = Inr (JStr ''mixed'')"
  by (simp add: getRelationProperty_def)

theorem getRelationProperty_extends_mixes_witness:
  "getRelationProperty Map.empty ex_Dog ex_speak ''augmentsNested'' = Inr (JStr ''inherited'') \<and>
   getRelationProperty Map.empty ex_Dog ex_speak ''mixesNested'' = Inr (JStr ''mixed'')"
  by (rule getRelationProperty_extends_mixes)

subsection \<open>C7: the implements relation\<close>

text \<open>
  C7. For the relation \<^verbatim>\<open>implementsNested\<close>, when the \<^verbatim>\<open>memberof\<close> of the candidate
  member resolves to a parent doclet: if the parent has a mixin descendant whose
  descendants include the target's longname and also a class descendant whose
  descendants include it, the relation property is \<^verbatim>\<open>'mixed'\<close>; if it has neither, the
  relation property is \<^verbatim>\<open>null\<close>.
\<close>

theorem getRelationProperty_implements_tag:
  assumes "dm (toStr (getProp member ''memberof'')) = Some parent"
  shows "(spec_descendantOfKind dm parent target ''mixin'' \<and>
          spec_descendantOfKind dm parent target ''class'' \<longrightarrow>
            getRelationProperty dm target member ''implementsNested'' = Inr (JStr ''mixed'')) \<and>
         (\<not> spec_descendantOfKind dm parent target ''mixin'' \<and>
          \<not> spec_descendantOfKind dm parent target ''class'' \<longrightarrow>
            getRelationProperty dm target member ''implementsNested'' = Inr JNull)"
  using getRelationProperty_implements [of "''implementsNested''" dm member parent target] assms
  by simp

theorem getRelationProperty_implements_tag_witness:
  "spec_descendantOfKind (createDocletMap ex_widgets) ex_Emitter ex_Widget ''mixin'' \<and>
   spec_descendantOfKind (createDocletMap ex_widgets) ex_Emitter ex_Widget ''class'' \<and>
   getRelationProperty (createDocletMap ex_widgets) ex_Widget ex_on ''implementsNested'' =
     Inr (JStr ''mixed'') \<and>
   \<not> spec_descendantOfKind (createDocletMap ex_tasks) ex_Runnable ex_Task ''mixin'' \<and>
   \<not> spec_descendantOfKind (createDocletMap ex_tasks) ex_Runnable ex_Task ''class'' \<and>
   getRelationProperty (createDocletMap ex_tasks) ex_Task ex_run ''implementsNested'' =
     Inr JNull"
proof -
  have p1: "createDocletMap ex_widgets (toStr (getProp ex_on ''memberof'')) = Some ex_Emitter"
    by code_simp
  have m1: "spec_descendantOfKind (createDocletMap ex_widgets) ex_Emitter ex_Widget ''mixin''"
    by code_simp
  have c1: "spec_descendantOfKind (createDocletMap ex_widgets) ex_Emitter ex_Widget ''class''"
    by code_simp
  have p2: "createDocletMap ex_tasks (toStr (getProp ex_run ''memberof'')) = Some ex_Runnable"
    by code_simp
  have m2: "\<not> spec_descendantOfKind (createDocletMap ex_tasks) ex_Runnable ex_Task ''mixin''"
    by code_simp
  have c2: "\<not> spec_descendantOfKind (createDocletMap ex_tasks) ex_Runnable ex_Task ''class''"
    by code_simp
  from getRelationProperty_implements_tag
         [where dm = "createDocletMap ex_widgets" and member = ex_on
            and parent = ex_Emitter and target = ex_Widget] p1 m1 c1
  have r1: "getRelationProperty (createDocletMap ex_widgets) ex_Widget ex_on
              ''implementsNested'' = Inr (JStr ''mixed'')"
    by blast
  from getRelationProperty_implements_tag
         [where dm = "createDocletMap ex_tasks" and member = ex_run
            and parent = ex_Runnable and target = ex_Task] p2 m2 c2
  have r2: "getRelationProperty (createDocletMap ex_tasks) ex_Task ex_run
              ''implementsNested'' = Inr JNull"
    by blast
  from m1 c1 r1 m2 c2 r2 show ?thesis by blast
qed

subsection \<open>C8: a candidate without a sibling\<close>

text \<open>
  C8. Take a call that returns and one of its candidate members, and suppose that no
  doclet stored under the target has the candidate's \<^verbatim>\<open>name\<close> and \<^verbatim>\<open>kind\<close>. Then the
  clone built for the candidate has the target's longname as \<^verbatim>\<open>memberof\<close>, it is an
  element of \<^verbatim>\<open>newDoclets\<close>, and the iteration for that candidate appends the clone to
  \<^verbatim>\<open>newDoclets\<close> and leaves \<^verbatim>\<open>docletsWhichShouldBeIgnored\<close> as it was.
\<close>

theorem no_sibling_adds_clone:
  assumes "getDocletsToAdd coll target opts = Inr cands"
    and "getMissingDocletsData coll target opts = Inr res"
    and "c \<in> set cands"
    and "\<forall>d \<in> set (get coll (''memberof:'' @ toStr (getProp target ''longname''))).
           \<not> (strictEq (getProp d ''name'') (getProp c ''name'') \<and>
              strictEq (getProp d ''kind'') (getProp c ''kind''))"
  shows "\<exists>cd rp. makeClonedDoclet (createDocletMap coll) target opts c = Inr (cd, rp) \<and>
           getProp cd ''memberof'' = getProp target ''longname'' \<and>
           cd \<in> set (newDoclets res) \<and>
           (\<forall>acc. processDocletToAdd coll (createDocletMap coll) target opts c acc =
                    Inr (acc\<lparr>newDoclets := newDoclets acc @ [cd]\<rparr>))"
proof -
  let ?dm = "createDocletMap coll"
  from getMissingDocletsData_iteration [OF assms(1-3)] obtain acc1 acc2 where
    it: "processDocletToAdd coll ?dm target opts c acc1 = Inr acc2"
    and sub: "set (newDoclets acc2) \<subseteq> set (newDoclets res)"
    by blast
  from processDocletToAdd_Inr [OF it] obtain cd rp where
    mk: "makeClonedDoclet ?dm target opts c = Inr (cd, rp)"
    and body: "\<And>acc. processDocletToAdd coll ?dm target opts c acc =
                 Inr (pushDoclets opts cd rp (docletsOfSameMember coll cd) acc)"
    by blast
  have none: "docletsOfSameMember coll cd = []"
    using assms(4) by (simp add: docletsOfSameMember_clone [OF mk] filter_empty_conv)
  have step: "\<And>acc. processDocletToAdd coll ?dm target opts c acc =
                Inr (acc\<lparr>newDoclets := newDoclets acc @ [cd]\<rparr>)"
    by (simp add: body none pushDoclets_def)
  have "cd \<in> set (newDoclets acc2)"
    using it step [of acc1] by auto
  with sub have "cd \<in> set (newDoclets res)" by blast
  moreover have "getProp cd ''memberof'' = getProp target ''longname''"
    using makeClonedDoclet_getProp [OF mk] by auto
  ultimately show ?thesis using mk step by blast
qed

theorem no_sibling_adds_clone_witness:
  "getDocletsToAdd ex_zoo ex_Dog (optionsFor ''augmentsNested'') = Inr [ex_speak] \<and>
   getMissingDocletsData ex_zoo ex_Dog (optionsFor ''augmentsNested'') =
     Inr \<lparr>newDoclets = [ex_Dog_speak], docletsWhichShouldBeIgnored = []\<rparr> \<and>
   get ex_zoo (''memberof:'' @ toStr (getProp ex_Dog ''longname'')) = [] \<and>
   (\<exists>cd rp. makeClonedDoclet (createDocletMap ex_zoo) ex_Dog (optionsFor ''augmentsNested'')
               ex_speak = Inr (cd, rp) \<and>
      getProp cd ''memberof'' = getProp ex_Dog ''longname'' \<and>
      cd \<in> set (newDoclets \<lparr>newDoclets = [ex_Dog_speak], docletsWhichShouldBeIgnored = []\<rparr>) \<and>
      (\<forall>acc. processDocletToAdd ex_zoo (createDocletMap ex_zoo) ex_Dog
                (optionsFor ''augmentsNested'') ex_speak acc =
              Inr (acc\<lparr>newDoclets := newDoclets acc @ [cd]\<rparr>)))"
proof -
  have h1: "getDocletsToAdd ex_zoo ex_Dog (optionsFor ''augmentsNested'') = Inr [ex_speak]"
    by code_simp
  have h2: "getMissingDocletsData ex_zoo ex_Dog (optionsFor ''augmentsNested'') =
              Inr \<lparr>newDoclets = [ex_Dog_speak], docletsWhichShouldBeIgnored = []\<rparr>"
    by code_simp
  have h3: "ex_speak \<in> set [ex_speak]" by simp
  have h4: "\<forall>d \<in> set (get ex_zoo (''memberof:'' @ toStr (getProp ex_Dog ''longname''))).
              \<not> (strictEq (getProp d ''name'') (getProp ex_speak ''name'') \<and>
                 strictEq (getProp d ''kind'') (getProp ex_speak ''kind''))"
    by code_simp
  have f: "get ex_zoo (''memberof:'' @ toStr (getProp ex_Dog ''longname'')) = []"
    by code_simp
  show ?thesis
    by (rule conjI [OF h1 conjI [OF h2 conjI [OF f
          no_sibling_adds_clone [OF h1 h2 h3 h4]]]])
qed

subsection \<open>C9: two siblings that both inherit explicitly\<close>

text \<open>
  C9. Take a call that returns and one of its candidate members, and suppose that
  exactly two doclets stored under the target have the candidate's \<^verbatim>\<open>name\<close> and
  \<^verbatim>\<open>kind\<close>, that each of them has \<^verbatim>\<open>inheritdoc\<close> or \<^verbatim>\<open>overrides\<close> defined, and that
  \<^verbatim>\<open>onlyImplicitlyInherited\<close> is not true. Then the iteration for that candidate appends
  the two siblings to \<^verbatim>\<open>docletsWhichShouldBeIgnored\<close> and exactly one doclet, the clone
  of the candidate, to \<^verbatim>\<open>newDoclets\<close>; all three are in the result.
\<close>

theorem explicit_siblings_ignored:
  assumes "getDocletsToAdd coll target opts = Inr cands"
    and "getMissingDocletsData coll target opts = Inr res"
    and "c \<in> set cands"
    and "filter (\<lambda>d. strictEq (getProp d ''name'') (getProp c ''name'') \<and>
                     strictEq (getProp d ''kind'') (getProp c ''kind''))
           (get coll (''memberof:'' @ toStr (getProp target ''longname''))) = [s1, s2]"
    and "getProp s1 ''inheritdoc'' \<noteq> JUndefined \<or> getProp s1 ''overrides'' \<noteq> JUndefined"
    and "getProp s2 ''inheritdoc'' \<noteq> JUndefined \<or> getProp s2 ''overrides'' \<noteq> JUndefined"
    and "onlyImplicitlyInherited opts \<noteq> Some True"
  shows "\<exists>cd rp. makeClonedDoclet (createDocletMap coll) target opts c = Inr (cd, rp) \<and>
           (\<forall>acc. processDocletToAdd coll (createDocletMap coll) target opts c acc =
                    Inr (acc\<lparr>docletsWhichShouldBeIgnored :=
                                docletsWhichShouldBeIgnored acc @ [s1, s2],
                              newDoclets := newDoclets acc @ [cd]\<rparr>)) \<and>
           cd \<in> set (newDoclets res) \<and>
           s1 \<in> set (docletsWhichShouldBeIgnored res) \<and>
           s2 \<in> set (docletsWhichShouldBeIgnored res)"
proof -
  let ?dm = "createDocletMap coll"
  from getMissingDocletsData_iteration [OF assms(1-3)] obtain acc1 acc2 where
    it: "processDocletToAdd coll ?dm target opts c acc1 = Inr acc2"
    and sub: "set (newDoclets acc2) \<subseteq> set (newDoclets res)"
      "set (docletsWhichShouldBeIgnored acc2) \<subseteq> set (docletsWhichShouldBeIgnored res)"
    by blast
  from processDocletToAdd_Inr [OF it] obtain cd rp where
    mk: "makeClonedDoclet ?dm target opts c = Inr (cd, rp)"
    and body: "\<And>acc. processDocletToAdd coll ?dm target opts c acc =
                 Inr (pushDoclets opts cd rp (docletsOfSameMember coll cd) acc)"
    by blast
  have two: "docletsOfSameMember coll cd = [s1, s2]"
    using assms(4) by (simp add: docletsOfSameMember_clone [OF mk])
  have undef: "\<And>v. strictEq v JUndefined = (v = JUndefined)"
    subgoal for v by (cases v) auto
    done
  have expl: "doAllParentsExplicitlyInherit [s1, s2]"
    using assms(5,6) by (auto simp: undef)
  have step: "\<And>acc. processDocletToAdd coll ?dm target opts c acc =
                Inr (acc\<lparr>docletsWhichShouldBeIgnored :=
                            docletsWhichShouldBeIgnored acc @ [s1, s2],
                          newDoclets := newDoclets acc @ [cd]\<rparr>)"
    using expl assms(7)
    by (simp add: body two pushDoclets_def del: doAllParentsExplicitlyInherit.simps)
  have "cd \<in> set (newDoclets acc2) \<and> s1 \<in> set (docletsWhichShouldBeIgnored acc2) \<and>
        s2 \<in> set (docletsWhichShouldBeIgnored acc2)"
    using it step [of acc1] by auto
  with sub have "cd \<in> set (newDoclets res) \<and> s1 \<in> set (docletsWhichShouldBeIgnored res) \<and>
        s2 \<in> set (docletsWhichShouldBeIgnored res)" by blast
  then show ?thesis using mk step by blast
qed

theorem explicit_siblings_ignored_witness:
  "getDocletsToAdd ex_zoo_explicit ex_Dog (optionsFor ''augmentsNested'') = Inr [ex_speak] \<and>
   getMissingDocletsData ex_zoo_explicit ex_Dog (optionsFor ''augmentsNested'') =
     Inr \<lparr>newDoclets = [ex_Dog_speak],
          docletsWhichShouldBeIgnored = [ex_Dog_speak_a, ex_Dog_speak_b]\<rparr> \<and>
   filter (\<lambda>d. strictEq (getProp d ''name'') (getProp ex_speak ''name'') \<and>
               strictEq (getProp d ''kind'') (getProp ex_speak ''kind''))
     (get ex_zoo_explicit (''memberof:'' @ toStr (getProp ex_Dog ''longname''))) =
     [ex_Dog_speak_a, ex_Dog_speak_b] \<and>
   (\<exists>cd rp. makeClonedDoclet (createDocletMap ex_zoo_explicit) ex_Dog
               (optionsFor ''augmentsNested'') ex_speak = Inr (cd, rp) \<and>
      (\<forall>acc. processDocletToAdd ex_zoo_explicit (createDocletMap ex_zoo_explicit) ex_Dog
                (optionsFor ''augmentsNested'') ex_speak acc =
              Inr (acc\<lparr>docletsWhichShouldBeIgnored :=
                          docletsWhichShouldBeIgnored acc @ [ex_Dog_speak_a, ex_Dog_speak_b],
                        newDoclets := newDoclets acc @ [cd]\<rparr>)) \<and>
      cd \<in> set (newDoclets \<lparr>newDoclets = [ex_Dog_speak],
              docletsWhichShouldBeIgnored = [ex_Dog_speak_a, ex_Dog_speak_b]\<rparr>) \<and>
      ex_Dog_speak_a \<in> set (docletsWhichShouldBeIgnored \<lparr>newDoclets = [ex_Dog_speak],
              docletsWhichShouldBeIgnored = [ex_Dog_speak_a, ex_Dog_speak_b]\<rparr>) \<and>
      ex_Dog_speak_b \<in> set (docletsWhichShouldBeIgnored \<lparr>newDoclets = [ex_Dog_speak],
              docletsWhichShouldBeIgnored = [ex_Dog_speak_a, ex_Dog_speak_b]\<rparr>))"
proof -
  have h1: "getDocletsToAdd ex_zoo_explicit ex_Dog (optionsFor ''augmentsNested'') =
              Inr [ex_speak]"
    by code_simp
  have h2: "getMissingDocletsData ex_zoo_explicit ex_Dog (optionsFor ''augmentsNested'') =
              Inr \<lparr>newDoclets = [ex_Dog_speak],
                   docletsWhichShouldBeIgnored = [ex_Dog_speak_a, ex_Dog_speak_b]\<rparr>"
    by code_simp
  have h3: "ex_speak \<in> set [ex_speak]" by simp
  have h4: "filter (\<lambda>d. strictEq (getProp d ''name'') (getProp ex_speak ''name'') \<and>
                        strictEq (getProp d ''kind'') (getProp ex_speak ''kind''))
              (get ex_zoo_explicit (''memberof:'' @ toStr (getProp ex_Dog ''longname''))) =
              [ex_Dog_speak_a, ex_Dog_speak_b]"
    by code_simp
  have h5: "getProp ex_Dog_speak_a ''inheritdoc'' \<noteq> JUndefined \<or>
            getProp ex_Dog_speak_a ''overrides'' \<noteq> JUndefined"
    by code_simp
  have h6: "getProp ex_Dog_speak_b ''inheritdoc'' \<noteq> JUndefined \<or>
            getProp ex_Dog_speak_b ''overrides'' \<noteq> JUndefined"
    by code_simp
  have h7: "onlyImplicitlyInherited (optionsFor ''augmentsNested'') \<noteq> Some True"
    by (simp add: optionsFor_def)
  show ?thesis
    by (rule conjI [OF h1 conjI [OF h2 conjI [OF h4
          explicit_siblings_ignored [OF h1 h2 h3 h4 h5 h6 h7]]]])
qed

subsection \<open>C10: the forced clone when the relation property is null\<close>

text \<open>
  C10. Take a call that returns and one of its candidate members, and suppose that
  two or more doclets stored under the target have the candidate's \<^verbatim>\<open>name\<close> and
  \<^verbatim>\<open>kind\<close>, that the branch for explicitly inheriting siblings is not taken, and that
  the relation property computed for the candidate is \<^verbatim>\<open>null\<close>. Then the iteration
  appends all these siblings to \<^verbatim>\<open>docletsWhichShouldBeIgnored\<close> and appends to
  \<^verbatim>\<open>newDoclets\<close> the clone of the first sibling with the property named \<^verbatim>\<open>null\<close> set to
  \<^verbatim>\<open>true\<close>; the \<^verbatim>\<open>inherited\<close> and \<^verbatim>\<open>mixed\<close> fields of that clone are those of the first
  sibling, untouched.
\<close>

theorem ambiguous_siblings_null_key:
  assumes "getDocletsToAdd coll target opts = Inr cands"
    and "getMissingDocletsData coll target opts = Inr res"
    and "c \<in> set cands"
    and "filter (\<lambda>d. strictEq (getProp d ''name'') (getProp c ''name'') \<and>
                     strictEq (getProp d ''kind'') (getProp c ''kind''))
           (get coll (''memberof:'' @ toStr (getProp target ''longname''))) = s1 # s2 # rest"
    and "\<not> (doAllParentsExplicitlyInherit (s1 # s2 # rest) \<and>
            onlyImplicitlyInherited opts \<noteq> Some True)"
    and "getRelationProperty (createDocletMap coll) target c (relation opts) = Inr JNull"
  shows "(\<forall>acc. processDocletToAdd coll (createDocletMap coll) target opts c acc =
                  Inr (acc\<lparr>docletsWhichShouldBeIgnored :=
                              docletsWhichShouldBeIgnored acc @ s1 # s2 # rest,
                            newDoclets := newDoclets acc @ [setProp s1 ''null'' (JBool True)]\<rparr>)) \<and>
         setProp s1 ''null'' (JBool True) \<in> set (newDoclets res) \<and>
         getProp (setProp s1 ''null'' (JBool True)) ''null'' = JBool True \<and>
         getProp (setProp s1 ''null'' (JBool True)) ''inherited'' = getProp s1 ''inherited'' \<and>
         getProp (setProp s1 ''null'' (JBool True)) ''mixed'' = getProp s1 ''mixed''"
proof -
  let ?dm = "createDocletMap coll"
  from getMissingDocletsData_iteration [OF assms(1-3)] obtain acc1 acc2 where
    it: "processDocletToAdd coll ?dm target opts c acc1 = Inr acc2"
    and sub: "set (newDoclets acc2) \<subseteq> set (newDoclets res)"
    by blast
  from processDocletToAdd_Inr [OF it] obtain cd rp where
    mk: "makeClonedDoclet ?dm target opts c = Inr (cd, rp)"
    and body: "\<And>acc. processDocletToAdd coll ?dm target opts c acc =
                 Inr (pushDoclets opts cd rp (docletsOfSameMember coll cd) acc)"
    by blast
  from makeClonedDoclet_fields [OF mk] assms(6) have rp: "rp = JNull" by auto
  have sm: "docletsOfSameMember coll cd = s1 # s2 # rest"
    using assms(4) by (simp add: docletsOfSameMember_clone [OF mk])
  have step: "\<And>acc. processDocletToAdd coll ?dm target opts c acc =
                Inr (acc\<lparr>docletsWhichShouldBeIgnored :=
                            docletsWhichShouldBeIgnored acc @ s1 # s2 # rest,
                          newDoclets := newDoclets acc @ [setProp s1 ''null'' (JBool True)]\<rparr>)"
    using assms(5) by (auto simp: body sm rp pushDoclets_def cloneDeep_def Let_def)
  have "setProp s1 ''null'' (JBool True) \<in> set (newDoclets acc2)"
    using it step [of acc1] by auto
  with sub have "setProp s1 ''null'' (JBool True) \<in> set (newDoclets res)" by blast
  then show ?thesis using step by (simp add: getProp_setProp)
qed

theorem ambiguous_siblings_null_key_witness:
  "getDocletsToAdd ex_tasks_twice ex_Task (optionsFor ''implementsNested'') = Inr [ex_run] \<and>
   getMissingDocletsData ex_tasks_twice ex_Task (optionsFor ''implementsNested'') =
     Inr \<lparr>newDoclets = [setProp ex_Task_run_a ''null'' (JBool True)],
          docletsWhichShouldBeIgnored = [ex_Task_run_a, ex_Task_run_b]\<rparr> \<and>
   getRelationProperty (createDocletMap ex_tasks_twice) ex_Task ex_run
     (relation (optionsFor ''implementsNested'')) = Inr JNull \<and>
   (\<forall>acc. processDocletToAdd ex_tasks_twice (createDocletMap ex_tasks_twice) ex_Task
             (optionsFor ''implementsNested'') ex_run acc =
           Inr (acc\<lparr>docletsWhichShouldBeIgnored :=
                       docletsWhichShouldBeIgnored acc @ ex_Task_run_a # ex_Task_run_b # [],
                     newDoclets :=
                       newDoclets acc @ [setProp ex_Task_run_a ''null'' (JBool True)]\<rparr>)) \<and>
   setProp ex_Task_run_a ''null'' (JBool True) \<in>
     set (newDoclets \<lparr>newDoclets = [setProp ex_Task_run_a ''null'' (JBool True)],
            docletsWhichShouldBeIgnored = [ex_Task_run_a, ex_Task_run_b]\<rparr>) \<and>
   getProp (setProp ex_Task_run_a ''null'' (JBool True)) ''null'' = JBool True \<and>
   getProp (setProp ex_Task_run_a ''null'' (JBool True)) ''inherited'' =
     getProp ex_Task_run_a ''inherited'' \<and>
   getProp (setProp ex_Task_run_a ''null'' (JBool True)) ''mixed'' =
     getProp ex_Task_run_a ''mixed''"
proof -
  have h1: "getDocletsToAdd ex_tasks_twice ex_Task (optionsFor ''implementsNested'') =
              Inr [ex_run]"
    by code_simp
  have h2: "getMissingDocletsData ex_tasks_twice ex_Task (optionsFor ''implementsNested'') =
              Inr \<lparr>newDoclets = [setProp ex_Task_run_a ''null'' (JBool True)],
                   docletsWhichShouldBeIgnored = [ex_Task_run_a, ex_Task_run_b]\<rparr>"
    by code_simp
  have h3: "ex_run \<in> set [ex_run]" by simp
  have h4: "filter (\<lambda>d. strictEq (getProp d ''name'') (getProp ex_run ''name'') \<and>
                        strictEq (getProp d ''kind'') (getProp ex_run ''kind''))
              (get ex_tasks_twice (''memberof:'' @ toStr (getProp ex_Task ''longname''))) =
              ex_Task_run_a # ex_Task_run_b # []"
    by code_simp
  have h5: "\<not> (doAllParentsExplicitlyInherit (ex_Task_run_a # ex_Task_run_b # []) \<and>
               onlyImplicitlyInherited (optionsFor ''implementsNested'') \<noteq> Some True)"
    by code_simp
  have h6: "getRelationProperty (createDocletMap ex_tasks_twice) ex_Task ex_run
              (relation (optionsFor ''implementsNested'')) = Inr JNull"
    by code_simp
  show ?thesis
    by (rule conjI [OF h1 conjI [OF h2 conjI [OF h6
          ambiguous_siblings_null_key [OF h1 h2 h3 h4 h5 h6]]]])
qed

end
